theory Spec2Isabelle
  imports Main
begin

section \<open>The logd writer of liblog (logd\_write.c), built without FAKE\_LOG\_DEVICE\<close>

subsection \<open>Constants of the platform headers\<close>

text \<open>
  The log identifiers are the five named in the table \<open>LOG_NAME\<close> of the source.
\<close>

datatype log_id = LOG_ID_MAIN | LOG_ID_RADIO | LOG_ID_EVENTS | LOG_ID_SYSTEM | LOG_ID_CRASH

text \<open>
  The headers that declare the following constants are not part of the source file, so
  every function that reads one of them takes them as the parameter \<open>P\<close>:
  the two user ids of \<open>private/android_filesystem_config.h\<close>, the payload bound and the
  sizes of two header fields of \<open>log/logger.h\<close> and \<open>log/log_read.h\<close>, two error numbers
  of \<open>errno.h\<close>, and the width of \<open>size_t\<close>.
\<close>

record platform =
  AID_ROOT :: nat
  AID_LOGD :: nat
  LOGGER_ENTRY_MAX_PAYLOAD :: nat
  sizeof_log_id_t :: nat
  sizeof_log_time :: nat
  ENOTCONN :: nat
  EBADF :: nat
  SIZE_BITS :: nat

text \<open>\<open>static const unsigned header_length = 3\<close>, and \<open>sizeof(tid)\<close> for \<open>uint16_t tid\<close>.\<close>

definition header_length :: nat where
  "header_length = 3"

definition sizeof_tid :: nat where
  "sizeof_tid = 2"

text \<open>Arithmetic of \<open>size_t\<close>: addition and subtraction wrap around at \<open>2 ^ SIZE_BITS\<close>.\<close>

definition size_add :: "platform \<Rightarrow> nat \<Rightarrow> nat \<Rightarrow> nat" where
  "size_add P a b = (a + b) mod 2 ^ SIZE_BITS P"

definition size_sub :: "platform \<Rightarrow> nat \<Rightarrow> nat \<Rightarrow> nat" where
  "size_sub P a b = (a + 2 ^ SIZE_BITS P - b mod 2 ^ SIZE_BITS P) mod 2 ^ SIZE_BITS P"

subsection \<open>Segments, system calls and the writer's state\<close>

text \<open>
  What an \<open>iov_base\<close> points at. The three header segments point at the local variables
  \<open>log_id_buf\<close>, \<open>tid\<close> and \<open>realtime_ts\<close> of \<open>__write_to_log_kernel\<close>, which are
  assigned once, before the first send; the pointer is modelled by the value stored there.
  A caller's segment points at the priority, at a string (the characters before its
  terminating NUL) or at other memory, named by its address.
\<close>

datatype pointee =
    Log_id_buf log_id
  | Tid nat
  | Realtime_ts nat nat
  | Prio int
  | Cstr string
  | Mem nat

record iovec =
  iov_base :: pointee
  iov_len :: nat

text \<open>
  The calls the writer makes to the C library, with their arguments. \<open>Writev fd v\<close> is
  \<open>writev(fd, newVec, n)\<close> with \<open>v\<close> the first \<open>n\<close> entries of \<open>newVec\<close>; an entry of the
  variable-length array \<open>newVec\<close> that was never assigned is \<open>None\<close>.
\<close>

datatype call =
    Getuid
  | Clock_gettime
  | Gettid
  | Pthread_mutex_lock
  | Pthread_mutex_unlock
  | Close int
  | Socket
  | Fcntl int
  | Connect int
  | Writev int "iovec option list"

text \<open>
  The system the writer runs on answers each call from the calls made so far and the
  arguments. A call that can fail answers with its return value and the value it leaves
  in \<open>errno\<close>. The result of \<open>close\<close> is never read by the source.
\<close>

record os =
  os_getuid :: "call list \<Rightarrow> nat"
  os_clock_gettime :: "call list \<Rightarrow> nat \<times> nat"
  os_gettid :: "call list \<Rightarrow> nat"
  os_socket :: "call list \<Rightarrow> int \<times> nat"
  os_fcntl :: "call list \<Rightarrow> int \<Rightarrow> int \<times> nat"
  os_connect :: "call list \<Rightarrow> int \<Rightarrow> int \<times> nat"
  os_writev :: "call list \<Rightarrow> int \<Rightarrow> iovec option list \<Rightarrow> int \<times> nat"

text \<open>The three functions the pointer \<open>write_to_log\<close> can hold.\<close>

datatype writer = Ptr_write_to_log_init | Ptr_write_to_log_null | Ptr_write_to_log_kernel

text \<open>
  The static variables \<open>write_to_log\<close>, \<open>logd_fd\<close> and \<open>last_uid\<close>, and the calls made
  so far, oldest first.
\<close>

record state =
  write_to_log :: writer
  logd_fd :: int
  last_uid :: nat
  calls :: "call list"

text \<open>The initialisers of the three static variables.\<close>

definition initial_state :: "platform \<Rightarrow> state" where
  "initial_state P =
     \<lparr>write_to_log = Ptr_write_to_log_init, logd_fd = - 1, last_uid = AID_ROOT P, calls = []\<rparr>"

definition sys :: "call \<Rightarrow> state \<Rightarrow> state" where
  "sys c s = s\<lparr>calls := calls s @ [c]\<rparr>"

text \<open>The calls made between two states.\<close>

definition calls_since :: "state \<Rightarrow> state \<Rightarrow> call list" where
  "calls_since s s' = drop (length (calls s)) (calls s')"

fun is_writev :: "call \<Rightarrow> bool" where
  "is_writev (Writev fd v) = True"
| "is_writev c = False"

subsection \<open>\<open>__write_to_log_null\<close> and \<open>__write_to_log_initialize\<close>\<close>

definition write_to_log_null :: "state \<Rightarrow> int \<times> state" where
  "write_to_log_null s = (- 1, s)"

definition write_to_log_initialize :: "os \<Rightarrow> state \<Rightarrow> int \<times> state" where
  "write_to_log_initialize os s0 =
     (let s1 = (if logd_fd s0 \<ge> 0 then sys (Close (logd_fd s0)) (s0\<lparr>logd_fd := - 1\<rparr>) else s0);
          (i, e) = os_socket os (calls s1);
          s2 = sys Socket s1
      in if i < 0 then
           (- int e, s2\<lparr>write_to_log := Ptr_write_to_log_null, logd_fd := i\<rparr>)
         else
           let (r, e) = os_fcntl os (calls s2) i;
               s3 = sys (Fcntl i) s2
           in if r < 0 then
                (- int e, (sys (Close i) s3)\<lparr>write_to_log := Ptr_write_to_log_null, logd_fd := - 1\<rparr>)
              else
                let (r, e) = os_connect os (calls s3) i;
                    s4 = sys (Connect i) s3
                in if r < 0 then
                     (- int e, (sys (Close i) s4)\<lparr>logd_fd := - 1\<rparr>)
                   else (0, s4\<lparr>logd_fd := i\<rparr>))"

subsection \<open>\<open>__write_to_log_kernel\<close>\<close>

text \<open>
  The loop that copies the caller's segments into \<open>newVec\<close> behind the header. \<open>nr\<close> is
  the length of \<open>vec\<close>. It returns the array and the final \<open>i\<close>.
\<close>

function fill_newVec ::
  "platform \<Rightarrow> iovec list \<Rightarrow> iovec option list \<Rightarrow> nat \<Rightarrow> nat \<Rightarrow> iovec option list \<times> nat"
where
  "fill_newVec P vec newVec payload_size i =
     (if i < length vec + header_length then
        let v = vec ! (i - header_length);
            newVec1 = newVec[i := Some v];
            payload_size1 = size_add P payload_size (iov_len v)
        in if payload_size1 > LOGGER_ENTRY_MAX_PAYLOAD P then
             let len1 = size_sub P (iov_len v)
                          (size_sub P payload_size1 (LOGGER_ENTRY_MAX_PAYLOAD P));
                 newVec2 = newVec1[i := Some (v\<lparr>iov_len := len1\<rparr>)]
             in (newVec2, if len1 \<noteq> 0 then i + 1 else i)
           else fill_newVec P vec newVec1 payload_size1 (i + 1)
      else (newVec, i))"
  by pat_completeness auto
termination
  by (relation "measure (\<lambda>(P, vec, newVec, payload_size, i). length vec + header_length - i)")
     auto

declare fill_newVec.simps [simp del]

text \<open>The header entries and the loop: the array \<open>newVec\<close> and the count \<open>i\<close> of the first send.\<close>

definition build_frame ::
  "platform \<Rightarrow> log_id \<Rightarrow> nat \<Rightarrow> nat \<times> nat \<Rightarrow> iovec list \<Rightarrow> iovec option list \<times> nat"
where
  "build_frame P log_id tid ts vec =
     (let newVec = replicate (length vec + header_length) None;
          newVec = newVec[0 := Some \<lparr>iov_base = Log_id_buf log_id, iov_len = sizeof_log_id_t P\<rparr>];
          newVec = newVec[1 := Some \<lparr>iov_base = Tid tid, iov_len = sizeof_tid\<rparr>];
          newVec = newVec[2 := Some \<lparr>iov_base = Realtime_ts (fst ts) (snd ts),
                                      iov_len = sizeof_log_time P\<rparr>]
      in fill_newVec P vec newVec 0 header_length)"

text \<open>The last statement before the return: a count beyond the header loses the header's size.\<close>

definition header_size :: "platform \<Rightarrow> int" where
  "header_size P = int (sizeof_log_id_t P + sizeof_tid + sizeof_log_time P)"

definition strip_header :: "platform \<Rightarrow> int \<Rightarrow> int" where
  "strip_header P ret = (if ret > header_size P then ret - header_size P else ret)"

text \<open>
  From the first \<open>writev\<close> to the return: the send of the first \<open>i\<close> entries, and after
  \<open>ENOTCONN\<close> the initialisation under the lock and the send of \<open>nr + header_length\<close>
  entries. The counts and negated error numbers held in \<open>ret\<close> are far from the bounds
  of \<open>ssize_t\<close> and \<open>int\<close>, so \<open>ret\<close> is an integer.
\<close>

definition send_frame ::
  "platform \<Rightarrow> os \<Rightarrow> iovec option list \<Rightarrow> nat \<Rightarrow> nat \<Rightarrow> state \<Rightarrow> int \<times> state"
where
  "send_frame P os newVec i nr s0 =
     (let (r, e) = os_writev os (calls s0) (logd_fd s0) (take i newVec);
          s1 = sys (Writev (logd_fd s0) (take i newVec)) s0
      in if r < 0 then
           let ret = - int e
           in if ret = - int (ENOTCONN P) then
                let (ret, s2) = write_to_log_initialize os (sys Pthread_mutex_lock s1);
                    s3 = sys Pthread_mutex_unlock s2
                in if ret < 0 then (ret, s3)
                   else
                     let (r, e) = os_writev os (calls s3) (logd_fd s3)
                                    (take (nr + header_length) newVec);
                         s4 = sys (Writev (logd_fd s3) (take (nr + header_length) newVec)) s3
                     in (strip_header P (if r < 0 then - int e else r), s4)
              else (strip_header P ret, s1)
         else (strip_header P r, s1))"

definition write_to_log_kernel ::
  "platform \<Rightarrow> os \<Rightarrow> log_id \<Rightarrow> iovec list \<Rightarrow> state \<Rightarrow> int \<times> state"
where
  "write_to_log_kernel P os log_id vec s0 =
     (let s1 = (if last_uid s0 = AID_ROOT P
                then (sys Getuid s0)\<lparr>last_uid := os_getuid os (calls s0)\<rparr> else s0)
      in if last_uid s1 = AID_LOGD P then (0, s1)
         else if logd_fd s1 < 0 then (- int (EBADF P), s1)
         else
           let ts = os_clock_gettime os (calls s1);
               s2 = sys Clock_gettime s1;
               tid = os_gettid os (calls s2) mod 2 ^ 16;
               s3 = sys Gettid s2;
               (newVec, i) = build_frame P log_id tid ts vec
           in send_frame P os newVec i (length vec) s3)"

subsection \<open>\<open>__android_log_close\<close>, \<open>__write_to_log_init\<close> and the call through the pointer\<close>

definition android_log_close :: "state \<Rightarrow> state" where
  "android_log_close s0 =
     (let s1 = sys Pthread_mutex_lock s0;
          s2 = s1\<lparr>write_to_log := Ptr_write_to_log_init\<rparr>;
          s3 = sys (Close (logd_fd s2)) s2;
          s4 = s3\<lparr>logd_fd := - 1\<rparr>
      in sys Pthread_mutex_unlock s4)"

text \<open>
  \<open>__write_to_log_init\<close> ends with a call through \<open>write_to_log\<close>. After the test of
  the pointer under the lock, the pointer is \<open>__write_to_log_kernel\<close> when the
  initialisation has just succeeded and is otherwise the value that was tested, so the
  three values of the pointer at the test give the three cases.
\<close>

definition write_to_log_init ::
  "platform \<Rightarrow> os \<Rightarrow> log_id \<Rightarrow> iovec list \<Rightarrow> state \<Rightarrow> int \<times> state"
where
  "write_to_log_init P os log_id vec s0 =
     (let s1 = sys Pthread_mutex_lock s0
      in case write_to_log s1 of
           Ptr_write_to_log_init \<Rightarrow>
             (let (ret, s2) = write_to_log_initialize os s1
              in if ret < 0 then (ret, sys Pthread_mutex_unlock s2)
                 else write_to_log_kernel P os log_id vec
                        (sys Pthread_mutex_unlock (s2\<lparr>write_to_log := Ptr_write_to_log_kernel\<rparr>)))
         | Ptr_write_to_log_null \<Rightarrow> write_to_log_null (sys Pthread_mutex_unlock s1)
         | Ptr_write_to_log_kernel \<Rightarrow>
             write_to_log_kernel P os log_id vec (sys Pthread_mutex_unlock s1))"

text \<open>The call \<open>write_to_log(log_id, vec, nr)\<close>.\<close>

definition call_write_to_log ::
  "platform \<Rightarrow> os \<Rightarrow> log_id \<Rightarrow> iovec list \<Rightarrow> state \<Rightarrow> int \<times> state"
where
  "call_write_to_log P os log_id vec s =
     (case write_to_log s of
        Ptr_write_to_log_init \<Rightarrow> write_to_log_init P os log_id vec s
      | Ptr_write_to_log_null \<Rightarrow> write_to_log_null s
      | Ptr_write_to_log_kernel \<Rightarrow> write_to_log_kernel P os log_id vec s)"

subsection \<open>\<open>__android_log_write\<close>\<close>

text \<open>
  \<open>snprintf(buf, n, "...%s", ...)\<close> stores at most \<open>n - 1\<close> characters of the formatted
  text before the terminating NUL.
\<close>

definition snprintf :: "nat \<Rightarrow> string \<Rightarrow> string" where
  "snprintf n text = take (n - 1) text"

text \<open>The tags of the radio subsystem: \<open>strcmp\<close> on the whole tag, \<open>strncmp\<close> on three characters.\<close>

definition radio_tag :: "string \<Rightarrow> bool" where
  "radio_tag tag \<longleftrightarrow>
     tag = ''HTC_RIL'' \<or> take 3 tag = ''RIL'' \<or> take 3 tag = ''IMS'' \<or> tag = ''AT'' \<or>
     tag = ''GSM'' \<or> tag = ''STK'' \<or> tag = ''CDMA'' \<or> tag = ''PHONE'' \<or> tag = ''SMS''"

text \<open>
  The log identifier and the three segments that \<open>__android_log_write\<close> hands to
  \<open>write_to_log\<close>. A null \<open>tag\<close> is \<open>None\<close>. \<open>tmp_tag\<close> has 32 characters. The first
  segment is one byte of \<open>prio\<close>; the length of a string counts its NUL. Under
  \<open>__BIONIC__\<close> a fatal priority also records the message with
  \<open>android_set_abort_message\<close>, which does not touch the writer and is left out.
\<close>

definition android_log_write_vec :: "int \<Rightarrow> string option \<Rightarrow> string \<Rightarrow> log_id \<times> iovec list" where
  "android_log_write_vec prio tag0 msg =
     (let tag = (case tag0 of None \<Rightarrow> [] | Some t \<Rightarrow> t);
          (log_id, tag) =
            (if radio_tag tag
             then (LOG_ID_RADIO, snprintf 32 (''use-Rlog/RLOG-'' @ tag))
             else (LOG_ID_MAIN, tag))
      in (log_id,
          [\<lparr>iov_base = Prio prio, iov_len = 1\<rparr>,
           \<lparr>iov_base = Cstr tag, iov_len = length tag + 1\<rparr>,
           \<lparr>iov_base = Cstr msg, iov_len = length msg + 1\<rparr>]))"

definition android_log_write ::
  "platform \<Rightarrow> os \<Rightarrow> int \<Rightarrow> string option \<Rightarrow> string \<Rightarrow> state \<Rightarrow> int \<times> state"
where
  "android_log_write P os prio tag msg s =
     (let (log_id, vec) = android_log_write_vec prio tag msg
      in call_write_to_log P os log_id vec s)"

subsection \<open>The frame builder in the words of the specification\<close>

text \<open>The cumulative byte length of a sequence of segments.\<close>

definition payload_length :: "iovec list \<Rightarrow> nat" where
  "payload_length vec = sum_list (map iov_len vec)"

text \<open>
  Walk the segments with the room that is left: a segment longer than the room is cut to
  the room and kept if the room is not zero, and every later segment is dropped.
\<close>

fun truncate_segments :: "nat \<Rightarrow> iovec list \<Rightarrow> iovec list" where
  "truncate_segments room [] = []"
| "truncate_segments room (v # vs) =
     (if iov_len v > room then (if room \<noteq> 0 then [v\<lparr>iov_len := room\<rparr>] else [])
      else v # truncate_segments (room - iov_len v) vs)"

subsection \<open>A platform, systems and inputs for the instances\<close>

text \<open>The values of the constants on a 32-bit Android device with Linux error numbers.\<close>

definition android_platform :: platform where
  "android_platform =
     \<lparr>AID_ROOT = 0, AID_LOGD = 1036, LOGGER_ENTRY_MAX_PAYLOAD = 4076, sizeof_log_id_t = 1,
      sizeof_log_time = 8, ENOTCONN = 107, EBADF = 9, SIZE_BITS = 32\<rparr>"

text \<open>A tag of 4999 characters, none of the radio subsystem.\<close>

definition long_tag :: string where
  "long_tag = replicate 4999 (CHR ''x'')"

text \<open>
  The segments of \<open>__android_log_write(4, long_tag, "hello")\<close>: the priority, the tag
  with its NUL and the message with its NUL; and the array \<open>newVec\<close> built from them by
  thread 77 at the time (10, 20).
\<close>

definition long_tag_vec :: "iovec list" where
  "long_tag_vec =
     [\<lparr>iov_base = Prio 4, iov_len = 1\<rparr>,
      \<lparr>iov_base = Cstr long_tag, iov_len = 5000\<rparr>,
      \<lparr>iov_base = Cstr ''hello'', iov_len = 6\<rparr>]"

definition long_tag_newVec :: "iovec option list" where
  "long_tag_newVec =
     [Some \<lparr>iov_base = Log_id_buf LOG_ID_MAIN, iov_len = 1\<rparr>,
      Some \<lparr>iov_base = Tid 77, iov_len = 2\<rparr>,
      Some \<lparr>iov_base = Realtime_ts 10 20, iov_len = 8\<rparr>,
      Some \<lparr>iov_base = Prio 4, iov_len = 1\<rparr>,
      Some \<lparr>iov_base = Cstr long_tag, iov_len = 4075\<rparr>,
      None]"

text \<open>
  A writer that is active on descriptor 3 in a process of user 1000, the same writer in the
  daemon after its privilege drop with no descriptor, and four systems: one where logd has
  gone away (the first \<open>writev\<close> fails with \<open>ENOTCONN\<close>, every later call succeeds), one
  where logd is overloaded (\<open>writev\<close> fails with \<open>EAGAIN\<close>, 11), one where nobody listens
  (\<open>connect\<close> fails with \<open>ECONNREFUSED\<close>, 111), and one where every call succeeds in a
  process of user 0.
\<close>

definition active_state :: state where
  "active_state =
     \<lparr>write_to_log = Ptr_write_to_log_kernel, logd_fd = 3, last_uid = 1000, calls = []\<rparr>"

definition logd_state :: state where
  "logd_state =
     \<lparr>write_to_log = Ptr_write_to_log_kernel, logd_fd = - 1, last_uid = 1036, calls = []\<rparr>"

definition reconnecting_os :: os where
  "reconnecting_os =
     \<lparr>os_getuid = (\<lambda>h. 1000), os_clock_gettime = (\<lambda>h. (10, 20)), os_gettid = (\<lambda>h. 77),
      os_socket = (\<lambda>h. (4, 0)), os_fcntl = (\<lambda>h fd. (0, 0)), os_connect = (\<lambda>h fd. (0, 0)),
      os_writev = (\<lambda>h fd v. if list_ex is_writev h then (4087, 0) else (- 1, 107))\<rparr>"

definition overloaded_os :: os where
  "overloaded_os =
     \<lparr>os_getuid = (\<lambda>h. 1000), os_clock_gettime = (\<lambda>h. (10, 20)), os_gettid = (\<lambda>h. 77),
      os_socket = (\<lambda>h. (4, 0)), os_fcntl = (\<lambda>h fd. (0, 0)), os_connect = (\<lambda>h fd. (0, 0)),
      os_writev = (\<lambda>h fd v. (- 1, 11))\<rparr>"

definition refusing_os :: os where
  "refusing_os =
     \<lparr>os_getuid = (\<lambda>h. 1000), os_clock_gettime = (\<lambda>h. (10, 20)), os_gettid = (\<lambda>h. 77),
      os_socket = (\<lambda>h. (3, 0)), os_fcntl = (\<lambda>h fd. (0, 0)),
      os_connect = (\<lambda>h fd. (- 1, 111)), os_writev = (\<lambda>h fd v. (22, 0))\<rparr>"

definition root_os :: os where
  "root_os =
     \<lparr>os_getuid = (\<lambda>h. 0), os_clock_gettime = (\<lambda>h. (10, 20)), os_gettid = (\<lambda>h. 77),
      os_socket = (\<lambda>h. (3, 0)), os_fcntl = (\<lambda>h fd. (0, 0)), os_connect = (\<lambda>h fd. (0, 0)),
      os_writev = (\<lambda>h fd v. (22, 0))\<rparr>"

text \<open>
  The two segments of \<open>__android_log_bwrite(tag, payload, 4294967292)\<close>: the four bytes of
  the tag and a payload whose length the function passes on as it is given.
\<close>

definition huge_payload_vec :: "iovec list" where
  "huge_payload_vec =
     [\<lparr>iov_base = Mem 8192, iov_len = 4\<rparr>,
      \<lparr>iov_base = Mem 65536, iov_len = 4294967292\<rparr>]"

section \<open>Basic facts\<close>

lemma calls_since_append [simp]: "calls s' = calls s @ cs \<Longrightarrow> calls_since s s' = cs"
  by (simp add: calls_since_def)

lemma calls_sys [simp]: "calls (sys c s) = calls s @ [c]"
  by (simp add: sys_def)

lemma fields_sys [simp]:
  "write_to_log (sys c s) = write_to_log s"
  "logd_fd (sys c s) = logd_fd s"
  "last_uid (sys c s) = last_uid s"
  by (simp_all add: sys_def)

lemma strip_header_nonpos: "x \<le> 0 \<Longrightarrow> strip_header P x = x"
  by (simp add: strip_header_def header_size_def)

lemma strip_header_beyond: "header_size P < x \<Longrightarrow> strip_header P x = x - header_size P"
  by (simp add: strip_header_def)

lemma android_platform_fields [simp]:
  "AID_ROOT android_platform = 0"
  "AID_LOGD android_platform = 1036"
  "LOGGER_ENTRY_MAX_PAYLOAD android_platform = 4076"
  "sizeof_log_id_t android_platform = 1"
  "sizeof_log_time android_platform = 8"
  "ENOTCONN android_platform = 107"
  "EBADF android_platform = 9"
  "SIZE_BITS android_platform = 32"
  by (simp_all add: android_platform_def)

section \<open>The frame builder\<close>

lemma payload_length_simps [simp]:
  "payload_length [] = 0"
  "payload_length (v # vs) = iov_len v + payload_length vs"
  "payload_length (xs @ ys) = payload_length xs + payload_length ys"
  by (simp_all add: payload_length_def)

lemma size_add_small: "a + b < 2 ^ SIZE_BITS P \<Longrightarrow> size_add P a b = a + b"
  by (simp add: size_add_def)

lemma size_sub_small: "b \<le> a \<Longrightarrow> a < 2 ^ SIZE_BITS P \<Longrightarrow> size_sub P a b = a - b"
proof -
  assume le: "b \<le> a" and lt: "a < 2 ^ SIZE_BITS P"
  define w :: nat where "w = 2 ^ SIZE_BITS P"
  have b: "b mod w = b" using le lt by (simp add: w_def)
  have "a + w - b = (a - b) + w" using le by arith
  moreover have "a - b < w" using lt by (simp add: w_def)
  ultimately have "(a + w - b) mod w = a - b" by (simp only: mod_add_self2 mod_less)
  then show ?thesis by (simp only: size_sub_def b w_def [symmetric])
qed

lemma payload_length_take_Suc:
  "k < length vec \<Longrightarrow> payload_length (take (Suc k) vec) = payload_length (take k vec) + iov_len (vec ! k)"
  by (simp add: take_Suc_conv_app_nth)

lemma fill_newVec_refines:
  assumes small: "\<forall>v\<in>set vec. iov_len v + LOGGER_ENTRY_MAX_PAYLOAD P < 2 ^ SIZE_BITS P"
  shows "length nv = length vec + header_length \<Longrightarrow> k \<le> length vec \<Longrightarrow>
         p = payload_length (take k vec) \<Longrightarrow> p \<le> LOGGER_ENTRY_MAX_PAYLOAD P \<Longrightarrow>
         fill_newVec P vec nv p (header_length + k) = (nv', i') \<Longrightarrow>
         take i' nv' = take (header_length + k) nv @
                       map Some (truncate_segments (LOGGER_ENTRY_MAX_PAYLOAD P - p) (drop k vec))"
proof (induction "length vec - k" arbitrary: k nv p)
  case 0
  then have k: "k = length vec" by simp
  from "0.prems"(5) have "nv' = nv" "i' = header_length + k"
    by (simp_all add: k fill_newVec.simps [of P vec nv p "header_length + length vec"])
  then show ?case by (simp add: k)
next
  case (Suc n)
  let ?M = "LOGGER_ENTRY_MAX_PAYLOAD P"
  let ?v = "vec ! k"
  from Suc.hyps(2) have klt: "k < length vec" by simp
  then have vin: "?v \<in> set vec" by simp
  with small have vsmall: "iov_len ?v + ?M < 2 ^ SIZE_BITS P" by blast
  have dropk: "drop k vec = ?v # drop (Suc k) vec"
    using klt by (simp add: Cons_nth_drop_Suc)
  have add: "size_add P p (iov_len ?v) = p + iov_len ?v"
    using vsmall Suc.prems(4) by (simp add: size_add_small)
  have idx: "header_length + k < length nv" using klt Suc.prems(1) by simp
  show ?case
  proof (cases "p + iov_len ?v > ?M")
    case True
    have s1: "size_sub P (p + iov_len ?v) ?M = p + iov_len ?v - ?M"
      using True vsmall Suc.prems(4) by (simp add: size_sub_small)
    have s2: "size_sub P (iov_len ?v) (p + iov_len ?v - ?M) = ?M - p"
      using True vsmall Suc.prems(4) by (simp add: size_sub_small)
    from Suc.prems(5) klt True
    have res: "nv' = nv[header_length + k := Some (?v\<lparr>iov_len := ?M - p\<rparr>)]"
              "i' = (if ?M - p \<noteq> 0 then header_length + k + 1 else header_length + k)"
      by (auto simp add: fill_newVec.simps [of P vec nv p "header_length + k"] add s1 s2 Let_def)
    show ?thesis
      using True idx Suc.prems(4) by (simp add: res dropk take_Suc_conv_app_nth)
  next
    case False
    then have le: "p + iov_len ?v \<le> ?M" by simp
    from Suc.prems(5) klt False
    have rec: "fill_newVec P vec (nv[header_length + k := Some ?v]) (p + iov_len ?v)
                 (header_length + Suc k) = (nv', i')"
      by (simp add: fill_newVec.simps [of P vec nv p "header_length + k"] add Let_def)
    have "take i' nv' = take (header_length + Suc k) (nv[header_length + k := Some ?v]) @
            map Some (truncate_segments (?M - (p + iov_len ?v)) (drop (Suc k) vec))"
    proof (rule Suc.hyps(1) [OF _ _ _ _ le rec])
      show "n = length vec - Suc k" using Suc.hyps(2) by simp
      show "length (nv[header_length + k := Some ?v]) = length vec + header_length"
        using Suc.prems(1) by simp
      show "Suc k \<le> length vec" using klt by simp
      show "p + iov_len ?v = payload_length (take (Suc k) vec)"
        using klt Suc.prems(3) by (simp add: payload_length_take_Suc)
    qed
    then show ?thesis
      using le idx by (simp add: dropk take_Suc_conv_app_nth)
  qed
qed

lemma truncate_segments_within:
  "payload_length vec \<le> room \<Longrightarrow> truncate_segments room vec = vec"
  by (induction vec arbitrary: room) auto

lemma truncate_segments_total:
  "room < payload_length vec \<Longrightarrow> payload_length (truncate_segments room vec) = room"
  by (induction vec arbitrary: room) auto

lemma truncate_segments_shape:
  "room < payload_length vec \<Longrightarrow>
   \<exists>k<length vec. payload_length (take k vec) \<le> room \<and> room < payload_length (take (Suc k) vec) \<and>
     truncate_segments room vec =
       take k vec @ (if payload_length (take k vec) < room
                     then [(vec ! k)\<lparr>iov_len := room - payload_length (take k vec)\<rparr>] else [])"
proof (induction vec arbitrary: room)
  case Nil
  then show ?case by simp
next
  case (Cons v vs)
  show ?case
  proof (cases "iov_len v > room")
    case True
    then show ?thesis by (intro exI [of _ 0]) auto
  next
    case False
    with Cons.prems have "room - iov_len v < payload_length vs" by simp
    from Cons.IH [OF this] obtain k where k: "k < length vs"
      "payload_length (take k vs) \<le> room - iov_len v"
      "room - iov_len v < payload_length (take (Suc k) vs)"
      "truncate_segments (room - iov_len v) vs =
         take k vs @ (if payload_length (take k vs) < room - iov_len v
                     then [(vs ! k)\<lparr>iov_len := room - iov_len v - payload_length (take k vs)\<rparr>] else [])"
      by blast
    show ?thesis
      using False k by (intro exI [of _ "Suc k"]) auto
  qed
qed

text \<open>
  C3, amended. Let every segment be so short that its length added to
  \<open>LOGGER_ENTRY_MAX_PAYLOAD\<close> does not overflow \<open>size_t\<close>. When the lengths of the caller's
  segments add up to more than \<open>LOGGER_ENTRY_MAX_PAYLOAD\<close>, the entries of \<open>newVec\<close> behind
  the header that the first send passes on are the segments before the one at which the
  running total first exceeds the bound, followed by that segment cut so that the total is
  exactly the bound, unless it is cut to length zero; every later segment is left out.
  When the lengths add up to at most the bound, all segments are passed on unchanged.
\<close>

theorem build_frame_truncates:
  assumes small: "\<forall>v\<in>set vec. iov_len v + LOGGER_ENTRY_MAX_PAYLOAD P < 2 ^ SIZE_BITS P"
      and built: "build_frame P log_id tid ts vec = (newVec, i)"
  shows "(payload_length vec \<le> LOGGER_ENTRY_MAX_PAYLOAD P \<longrightarrow>
            drop header_length (take i newVec) = map Some vec) \<and>
         (LOGGER_ENTRY_MAX_PAYLOAD P < payload_length vec \<longrightarrow>
            (\<exists>k sent. k < length vec \<and>
               payload_length (take k vec) \<le> LOGGER_ENTRY_MAX_PAYLOAD P \<and>
               LOGGER_ENTRY_MAX_PAYLOAD P < payload_length (take (Suc k) vec) \<and>
               sent = take k vec @
                 (if payload_length (take k vec) < LOGGER_ENTRY_MAX_PAYLOAD P
                  then [(vec ! k)\<lparr>iov_len := LOGGER_ENTRY_MAX_PAYLOAD P - payload_length (take k vec)\<rparr>]
                  else []) \<and>
               drop header_length (take i newVec) = map Some sent \<and>
               payload_length sent = LOGGER_ENTRY_MAX_PAYLOAD P))"
proof -
  let ?M = "LOGGER_ENTRY_MAX_PAYLOAD P"
  define nv where "nv = (replicate (length vec + header_length) (None :: iovec option))
     [0 := Some \<lparr>iov_base = Log_id_buf log_id, iov_len = sizeof_log_id_t P\<rparr>,
      1 := Some \<lparr>iov_base = Tid tid, iov_len = sizeof_tid\<rparr>,
      2 := Some \<lparr>iov_base = Realtime_ts (fst ts) (snd ts), iov_len = sizeof_log_time P\<rparr>]"
  have len: "length nv = length vec + header_length" by (simp add: nv_def)
  from built have fill: "fill_newVec P vec nv 0 (header_length + 0) = (newVec, i)"
    by (simp add: build_frame_def nv_def Let_def)
  have "take i newVec = take (header_length + 0) nv @
          map Some (truncate_segments (?M - 0) (drop 0 vec))"
    by (rule fill_newVec_refines [OF small len _ _ _ fill]) simp_all
  then have sent: "drop header_length (take i newVec) = map Some (truncate_segments ?M vec)"
    by (simp add: len)
  show ?thesis
  proof (intro conjI impI)
    assume "payload_length vec \<le> ?M"
    then show "drop header_length (take i newVec) = map Some vec"
      by (simp add: sent truncate_segments_within)
  next
    assume over: "?M < payload_length vec"
    from truncate_segments_shape [OF over] obtain k where k: "k < length vec"
      "payload_length (take k vec) \<le> ?M" "?M < payload_length (take (Suc k) vec)"
      "truncate_segments ?M vec = take k vec @
         (if payload_length (take k vec) < ?M
          then [(vec ! k)\<lparr>iov_len := ?M - payload_length (take k vec)\<rparr>] else [])"
      by blast
    have "payload_length (truncate_segments ?M vec) = ?M"
      by (rule truncate_segments_total [OF over])
    with k sent show "\<exists>k sent. k < length vec \<and>
               payload_length (take k vec) \<le> ?M \<and>
               ?M < payload_length (take (Suc k) vec) \<and>
               sent = take k vec @
                 (if payload_length (take k vec) < ?M
                  then [(vec ! k)\<lparr>iov_len := ?M - payload_length (take k vec)\<rparr>]
                  else []) \<and>
               drop header_length (take i newVec) = map Some sent \<and>
               payload_length sent = ?M"
      by metis
  qed
qed

lemma replicate_6: "replicate 6 x = [x, x, x, x, x, x]"
  by (simp add: numeral_eq_Suc)

lemma length_long_tag_vec [simp]: "length long_tag_vec = 3"
  by (simp add: long_tag_vec_def)

lemma build_long_tag:
  "build_frame android_platform LOG_ID_MAIN 77 (10, 20) long_tag_vec = (long_tag_newVec, 5)"
  by (simp add: build_frame_def long_tag_vec_def long_tag_newVec_def header_length_def
      sizeof_tid_def size_add_def size_sub_def fill_newVec.simps Let_def replicate_6)

theorem build_frame_truncates_witness:
  "LOGGER_ENTRY_MAX_PAYLOAD android_platform < payload_length long_tag_vec \<and>
   (\<exists>k sent. k < length long_tag_vec \<and>
      payload_length (take k long_tag_vec) \<le> LOGGER_ENTRY_MAX_PAYLOAD android_platform \<and>
      LOGGER_ENTRY_MAX_PAYLOAD android_platform < payload_length (take (Suc k) long_tag_vec) \<and>
      sent = take k long_tag_vec @
        (if payload_length (take k long_tag_vec) < LOGGER_ENTRY_MAX_PAYLOAD android_platform
         then [(long_tag_vec ! k)\<lparr>iov_len := LOGGER_ENTRY_MAX_PAYLOAD android_platform -
                 payload_length (take k long_tag_vec)\<rparr>]
         else []) \<and>
      drop header_length (take 5 long_tag_newVec) = map Some sent \<and>
      payload_length sent = LOGGER_ENTRY_MAX_PAYLOAD android_platform)"
proof -
  have small: "\<forall>v\<in>set long_tag_vec.
      iov_len v + LOGGER_ENTRY_MAX_PAYLOAD android_platform < 2 ^ SIZE_BITS android_platform"
    by (simp add: long_tag_vec_def)
  have over: "LOGGER_ENTRY_MAX_PAYLOAD android_platform < payload_length long_tag_vec"
    by (simp add: long_tag_vec_def)
  from build_frame_truncates [OF small build_long_tag] over show ?thesis
    by blast
qed

text \<open>
  Without that condition the running total \<open>payload_size\<close> can wrap around: on a platform
  with a \<open>size_t\<close> of 32 bits, a segment of 4 bytes followed by one of 4294967292 bytes
  brings it to 0, which is not beyond the bound, so both segments are passed on uncut and
  the payload of the frame is 4294967296 bytes long.
\<close>

theorem build_frame_truncates_counterexample:
  "LOGGER_ENTRY_MAX_PAYLOAD android_platform < payload_length huge_payload_vec \<and>
   build_frame android_platform LOG_ID_EVENTS 77 (10, 20) huge_payload_vec =
     ([Some \<lparr>iov_base = Log_id_buf LOG_ID_EVENTS, iov_len = 1\<rparr>,
       Some \<lparr>iov_base = Tid 77, iov_len = 2\<rparr>,
       Some \<lparr>iov_base = Realtime_ts 10 20, iov_len = 8\<rparr>,
       Some \<lparr>iov_base = Mem 8192, iov_len = 4\<rparr>,
       Some \<lparr>iov_base = Mem 65536, iov_len = 4294967292\<rparr>], 5) \<and>
   payload_length huge_payload_vec = 4294967296 \<and>
   payload_length huge_payload_vec \<noteq> LOGGER_ENTRY_MAX_PAYLOAD android_platform"
proof -
  have five: "replicate 5 x = [x, x, x, x, x]" for x :: "iovec option"
    by (simp add: numeral_eq_Suc)
  have frame: "build_frame android_platform LOG_ID_EVENTS 77 (10, 20) huge_payload_vec =
     ([Some \<lparr>iov_base = Log_id_buf LOG_ID_EVENTS, iov_len = 1\<rparr>,
       Some \<lparr>iov_base = Tid 77, iov_len = 2\<rparr>,
       Some \<lparr>iov_base = Realtime_ts 10 20, iov_len = 8\<rparr>,
       Some \<lparr>iov_base = Mem 8192, iov_len = 4\<rparr>,
       Some \<lparr>iov_base = Mem 65536, iov_len = 4294967292\<rparr>], 5)"
    by (simp add: build_frame_def huge_payload_vec_def header_length_def sizeof_tid_def
        size_add_def size_sub_def fill_newVec.simps Let_def five)
  have total: "payload_length huge_payload_vec = 4294967296"
    by (simp add: huge_payload_vec_def)
  show ?thesis
    unfolding frame total by simp
qed

section \<open>Initialisation and the send with its single retry\<close>

lemma initialize_calls:
  assumes "write_to_log_initialize os s = (ret, s')"
  shows "\<exists>cs. calls s' = calls s @ cs \<and> length (filter (\<lambda>c. c = Socket) cs) = 1 \<and>
              filter is_writev cs = [] \<and> Getuid \<notin> set cs"
  using assms
  by (auto simp add: write_to_log_initialize_def Let_def split: prod.splits if_splits)

lemma initialize_last_uid:
  assumes "write_to_log_initialize os s = (ret, s')"
  shows "last_uid s' = last_uid s"
  using assms
  by (auto simp add: write_to_log_initialize_def Let_def split: prod.splits if_splits)

lemma initialize_ret:
  assumes "write_to_log_initialize os s = (ret, s')"
  shows "ret \<le> 0"
  using assms
  by (auto simp add: write_to_log_initialize_def Let_def split: prod.splits if_splits)

lemma send_frame_other_error:
  assumes "os_writev os (calls s) (logd_fd s) (take i newVec) = (r, e)" and "r < 0"
      and "e \<noteq> ENOTCONN P"
  shows "send_frame P os newVec i nr s = (- int e, sys (Writev (logd_fd s) (take i newVec)) s)"
  using assms by (simp add: send_frame_def Let_def strip_header_nonpos)

lemma send_frame_ok:
  assumes "os_writev os (calls s) (logd_fd s) (take i newVec) = (r, e)" and "0 \<le> r"
  shows "send_frame P os newVec i nr s =
           (strip_header P r, sys (Writev (logd_fd s) (take i newVec)) s)"
  using assms by (simp add: send_frame_def Let_def)

lemma send_frame_init_failed:
  assumes "os_writev os (calls s) (logd_fd s) (take i newVec) = (r, e)" and "r < 0"
      and "e = ENOTCONN P"
      and "write_to_log_initialize os
             (sys Pthread_mutex_lock (sys (Writev (logd_fd s) (take i newVec)) s)) = (ret_init, s_init)"
      and "ret_init < 0"
  shows "send_frame P os newVec i nr s = (ret_init, sys Pthread_mutex_unlock s_init)"
  using assms by (simp add: send_frame_def Let_def)

lemma send_frame_retry:
  assumes "os_writev os (calls s) (logd_fd s) (take i newVec) = (r, e)" and "r < 0"
      and "e = ENOTCONN P"
      and "write_to_log_initialize os
             (sys Pthread_mutex_lock (sys (Writev (logd_fd s) (take i newVec)) s)) = (ret_init, s_init)"
      and "0 \<le> ret_init"
      and "os_writev os (calls (sys Pthread_mutex_unlock s_init)) (logd_fd s_init)
             (take (nr + header_length) newVec) = (r2, e2)"
  shows "send_frame P os newVec i nr s =
           (strip_header P (if r2 < 0 then - int e2 else r2),
            sys (Writev (logd_fd s_init) (take (nr + header_length) newVec))
              (sys Pthread_mutex_unlock s_init))"
  using assms by (simp add: send_frame_def Let_def)

text \<open>
  C1. When the first \<open>writev\<close> of the active path fails with \<open>ENOTCONN\<close>, the calls that
  follow are the lock, one run of the initialisation (which creates exactly one socket),
  the unlock and, only if the initialisation did not fail, one more \<open>writev\<close>; a failed
  initialisation returns its error. When the first \<open>writev\<close> fails with any other error,
  its negated error number is returned and no further call is made: no initialisation, no
  second send.
\<close>

theorem send_frame_reconnect_policy:
  assumes first: "os_writev os (calls s) (logd_fd s) (take i newVec) = (r, e)" and fail: "r < 0"
      and init: "write_to_log_initialize os
                   (sys Pthread_mutex_lock (sys (Writev (logd_fd s) (take i newVec)) s)) =
                 (ret_init, s_init)"
      and sent: "send_frame P os newVec i nr s = (ret, s')"
  shows "(e = ENOTCONN P \<longrightarrow>
            calls_since s s' =
              [Writev (logd_fd s) (take i newVec), Pthread_mutex_lock] @
              calls_since (sys Pthread_mutex_lock (sys (Writev (logd_fd s) (take i newVec)) s)) s_init @
              [Pthread_mutex_unlock] @
              (if ret_init < 0 then []
               else [Writev (logd_fd s_init) (take (nr + header_length) newVec)]) \<and>
            length (filter (\<lambda>c. c = Socket) (calls_since s s')) = 1 \<and>
            length (filter is_writev (calls_since s s')) = (if ret_init < 0 then 1 else 2) \<and>
            (ret_init < 0 \<longrightarrow> ret = ret_init)) \<and>
         (e \<noteq> ENOTCONN P \<longrightarrow>
            ret = - int e \<and> s' = sys (Writev (logd_fd s) (take i newVec)) s)"
proof (intro conjI; rule impI; (intro conjI)?)
  assume other: "e \<noteq> ENOTCONN P"
  from send_frame_other_error [OF first fail other, of nr] sent
  show "ret = - int e" and "s' = sys (Writev (logd_fd s) (take i newVec)) s"
    by simp_all
next
  assume gone: "e = ENOTCONN P"
  let ?s1 = "sys Pthread_mutex_lock (sys (Writev (logd_fd s) (take i newVec)) s)"
  from initialize_calls [OF init] obtain cs where cs:
    "calls s_init = calls ?s1 @ cs" "length (filter (\<lambda>c. c = Socket) cs) = 1"
    "filter is_writev cs = []"
    by blast
  have since: "calls_since ?s1 s_init = cs" using cs(1) by simp
  obtain r2 e2 where second:
    "os_writev os (calls (sys Pthread_mutex_unlock s_init)) (logd_fd s_init)
       (take (nr + header_length) newVec) = (r2, e2)"
    by (cases "os_writev os (calls (sys Pthread_mutex_unlock s_init)) (logd_fd s_init)
       (take (nr + header_length) newVec)")
  have calls': "calls s' = calls s @
      ([Writev (logd_fd s) (take i newVec), Pthread_mutex_lock] @ cs @ [Pthread_mutex_unlock] @
       (if ret_init < 0 then []
        else [Writev (logd_fd s_init) (take (nr + header_length) newVec)]))"
    and ret': "ret_init < 0 \<longrightarrow> ret = ret_init"
  proof -
    show "calls s' = calls s @
      ([Writev (logd_fd s) (take i newVec), Pthread_mutex_lock] @ cs @ [Pthread_mutex_unlock] @
       (if ret_init < 0 then []
        else [Writev (logd_fd s_init) (take (nr + header_length) newVec)]))"
    proof (cases "ret_init < 0")
      case True
      from send_frame_init_failed [OF first fail gone init True, of nr] sent cs(1) True
      show ?thesis by auto
    next
      case False
      then have ok: "0 \<le> ret_init" by simp
      from send_frame_retry [OF first fail gone init ok second] sent cs(1) False
      show ?thesis by auto
    qed
    show "ret_init < 0 \<longrightarrow> ret = ret_init"
    proof (cases "ret_init < 0")
      case True
      from send_frame_init_failed [OF first fail gone init True, of nr] sent True
      show ?thesis by auto
    next
      case False
      then show ?thesis by simp
    qed
  qed
  from calls' have new: "calls_since s s' =
      [Writev (logd_fd s) (take i newVec), Pthread_mutex_lock] @ cs @ [Pthread_mutex_unlock] @
       (if ret_init < 0 then []
        else [Writev (logd_fd s_init) (take (nr + header_length) newVec)])"
    by (rule calls_since_append)
  show "calls_since s s' =
              [Writev (logd_fd s) (take i newVec), Pthread_mutex_lock] @
              calls_since ?s1 s_init @
              [Pthread_mutex_unlock] @
              (if ret_init < 0 then []
               else [Writev (logd_fd s_init) (take (nr + header_length) newVec)])"
    by (simp only: new since)
  show "length (filter (\<lambda>c. c = Socket) (calls_since s s')) = 1"
    using cs(2) by (simp add: new)
  show "length (filter is_writev (calls_since s s')) = (if ret_init < 0 then 1 else 2)"
    using cs(3) by (simp add: new)
  show "ret_init < 0 \<longrightarrow> ret = ret_init" by (rule ret')
qed

theorem send_frame_reconnect_policy_witness:
  "os_writev reconnecting_os (calls active_state) (logd_fd active_state) (take 5 long_tag_newVec) =
     (- 1, ENOTCONN android_platform) \<and>
   length (filter (\<lambda>c. c = Socket) (calls_since active_state
     (snd (send_frame android_platform reconnecting_os long_tag_newVec 5 3 active_state)))) = 1 \<and>
   length (filter is_writev (calls_since active_state
     (snd (send_frame android_platform reconnecting_os long_tag_newVec 5 3 active_state)))) = 2 \<and>
   os_writev overloaded_os (calls active_state) (logd_fd active_state) (take 5 long_tag_newVec) =
     (- 1, 11) \<and>
   send_frame android_platform overloaded_os long_tag_newVec 5 3 active_state =
     (- 11, sys (Writev 3 (take 5 long_tag_newVec)) active_state)"
proof -
  let ?v = "take 5 long_tag_newVec"
  let ?s1 = "sys Pthread_mutex_lock (sys (Writev (logd_fd active_state) ?v) active_state)"
  have neg: "(- 1 :: int) < 0" by simp
  have gone: "os_writev reconnecting_os (calls active_state) (logd_fd active_state) ?v = (- 1, 107)"
    by (simp add: reconnecting_os_def active_state_def)
  have init: "write_to_log_initialize reconnecting_os ?s1 =
      (0, ?s1\<lparr>logd_fd := 4, calls := calls ?s1 @ [Close 3, Socket, Fcntl 4, Connect 4]\<rparr>)"
    by (simp add: write_to_log_initialize_def reconnecting_os_def active_state_def sys_def Let_def)
  have sent: "send_frame android_platform reconnecting_os long_tag_newVec 5 3 active_state =
      (fst (send_frame android_platform reconnecting_os long_tag_newVec 5 3 active_state),
       snd (send_frame android_platform reconnecting_os long_tag_newVec 5 3 active_state))"
    by simp
  have busy: "os_writev overloaded_os (calls active_state) (logd_fd active_state) ?v = (- 1, 11)"
    by (simp add: overloaded_os_def)
  have init': "write_to_log_initialize overloaded_os ?s1 =
      (fst (write_to_log_initialize overloaded_os ?s1),
       snd (write_to_log_initialize overloaded_os ?s1))"
    by simp
  have sent': "send_frame android_platform overloaded_os long_tag_newVec 5 3 active_state =
      (fst (send_frame android_platform overloaded_os long_tag_newVec 5 3 active_state),
       snd (send_frame android_platform overloaded_os long_tag_newVec 5 3 active_state))"
    by simp
  have fd: "logd_fd active_state = 3" by (simp add: active_state_def)
  from send_frame_reconnect_policy [OF gone neg init sent]
    send_frame_reconnect_policy [OF busy neg init' sent'] gone busy
  show ?thesis
    by (simp add: fd prod_eq_iff)
qed

text \<open>
  C10. A \<open>writev\<close> of the active path that returns a count greater than the size of the
  three header segments (the first send, or the send after a successful initialisation)
  makes the writer return that count less the size of the header.
\<close>

theorem send_frame_strips_header:
  "(os_writev os (calls s) (logd_fd s) (take i newVec) = (r, e) \<and> header_size P < r \<longrightarrow>
      fst (send_frame P os newVec i nr s) = r - header_size P) \<and>
   (os_writev os (calls s) (logd_fd s) (take i newVec) = (r, e) \<and> r < 0 \<and> e = ENOTCONN P \<and>
    write_to_log_initialize os
      (sys Pthread_mutex_lock (sys (Writev (logd_fd s) (take i newVec)) s)) = (ret_init, s_init) \<and>
    0 \<le> ret_init \<and>
    os_writev os (calls (sys Pthread_mutex_unlock s_init)) (logd_fd s_init)
      (take (nr + header_length) newVec) = (r2, e2) \<and>
    header_size P < r2 \<longrightarrow>
      fst (send_frame P os newVec i nr s) = r2 - header_size P)"
proof (intro conjI impI; elim conjE)
  assume first: "os_writev os (calls s) (logd_fd s) (take i newVec) = (r, e)"
     and big: "header_size P < r"
  have "0 \<le> header_size P" by (simp add: header_size_def)
  with big have "0 \<le> r" by simp
  from send_frame_ok [OF first this, of P nr] big
  show "fst (send_frame P os newVec i nr s) = r - header_size P"
    by (simp add: strip_header_beyond)
next
  assume first: "os_writev os (calls s) (logd_fd s) (take i newVec) = (r, e)"
     and fail: "r < 0" and gone: "e = ENOTCONN P"
     and init: "write_to_log_initialize os
      (sys Pthread_mutex_lock (sys (Writev (logd_fd s) (take i newVec)) s)) = (ret_init, s_init)"
     and ok: "0 \<le> ret_init"
     and second: "os_writev os (calls (sys Pthread_mutex_unlock s_init)) (logd_fd s_init)
      (take (nr + header_length) newVec) = (r2, e2)"
     and big: "header_size P < r2"
  have "0 \<le> header_size P" by (simp add: header_size_def)
  with big have "\<not> r2 < 0" by simp
  with send_frame_retry [OF first fail gone init ok second] big
  show "fst (send_frame P os newVec i nr s) = r2 - header_size P"
    by (simp add: strip_header_beyond)
qed

theorem send_frame_strips_header_witness:
  "os_writev root_os (calls active_state) (logd_fd active_state) (take 5 long_tag_newVec) = (22, 0) \<and>
   header_size android_platform = 11 \<and>
   fst (send_frame android_platform root_os long_tag_newVec 5 3 active_state) = 11 \<and>
   fst (send_frame android_platform reconnecting_os long_tag_newVec 5 3 active_state) = 4076"
proof -
  let ?v = "take 5 long_tag_newVec"
  let ?s1 = "sys Pthread_mutex_lock (sys (Writev (logd_fd active_state) ?v) active_state)"
  let ?s2 = "?s1\<lparr>logd_fd := 4, calls := calls ?s1 @ [Close 3, Socket, Fcntl 4, Connect 4]\<rparr>"
  have size: "header_size android_platform = 11"
    by (simp add: header_size_def sizeof_tid_def)
  have ok: "os_writev root_os (calls active_state) (logd_fd active_state) ?v = (22, 0)"
    by (simp add: root_os_def)
  have gone: "os_writev reconnecting_os (calls active_state) (logd_fd active_state) ?v = (- 1, 107)"
    by (simp add: reconnecting_os_def active_state_def)
  have init: "write_to_log_initialize reconnecting_os ?s1 = (0, ?s2)"
    by (simp add: write_to_log_initialize_def reconnecting_os_def active_state_def sys_def Let_def)
  have again: "os_writev reconnecting_os (calls (sys Pthread_mutex_unlock ?s2)) (logd_fd ?s2)
      (take (3 + header_length) long_tag_newVec) = (4087, 0)"
    by (simp add: reconnecting_os_def active_state_def sys_def)
  from send_frame_strips_header
         [where os = root_os and s = active_state and i = 5 and newVec = long_tag_newVec
            and r = 22 and e = 0 and P = android_platform and nr = 3, THEN conjunct1]
       send_frame_strips_header
         [where os = reconnecting_os and s = active_state and i = 5 and newVec = long_tag_newVec
            and r = "- 1" and e = 107 and P = android_platform and nr = 3 and ret_init = 0
            and s_init = ?s2 and ?r2.0 = 4087 and ?e2.0 = 0, THEN conjunct2]
       size ok gone init again
  show ?thesis by simp
qed

text \<open>
  C5. The array \<open>newVec\<close> is not touched between the two sends and the clock is read once,
  so the retry passes the same header and the same timestamp. It passes \<open>nr + header_length\<close>
  entries, though, where the first send passed \<open>i\<close>: for \<open>__android_log_write\<close> with a tag
  of 4999 characters the first send passes five entries, the tag cut to 4075 bytes being
  the last, and the retry passes six, the sixth being an entry of \<open>newVec\<close> that was never
  assigned.
\<close>

theorem retry_passes_unassigned_entry:
  "calls (snd (android_log_write android_platform reconnecting_os 4 (Some long_tag) ''hello''
                 active_state)) =
     [Clock_gettime, Gettid,
      Writev 3 [Some \<lparr>iov_base = Log_id_buf LOG_ID_MAIN, iov_len = 1\<rparr>,
                Some \<lparr>iov_base = Tid 77, iov_len = 2\<rparr>,
                Some \<lparr>iov_base = Realtime_ts 10 20, iov_len = 8\<rparr>,
                Some \<lparr>iov_base = Prio 4, iov_len = 1\<rparr>,
                Some \<lparr>iov_base = Cstr long_tag, iov_len = 4075\<rparr>],
      Pthread_mutex_lock, Close 3, Socket, Fcntl 4, Connect 4, Pthread_mutex_unlock,
      Writev 4 [Some \<lparr>iov_base = Log_id_buf LOG_ID_MAIN, iov_len = 1\<rparr>,
                Some \<lparr>iov_base = Tid 77, iov_len = 2\<rparr>,
                Some \<lparr>iov_base = Realtime_ts 10 20, iov_len = 8\<rparr>,
                Some \<lparr>iov_base = Prio 4, iov_len = 1\<rparr>,
                Some \<lparr>iov_base = Cstr long_tag, iov_len = 4075\<rparr>,
                None]]"
proof -
  have len: "\<And>t. long_tag = t \<Longrightarrow> length t = 4999"
    by (auto simp add: long_tag_def)
  have "take 3 long_tag = ''xxx''"
    by (simp add: long_tag_def numeral_eq_Suc)
  then have plain: "\<not> radio_tag long_tag"
    unfolding radio_tag_def by (auto dest!: len)
  have "length long_tag = 4999" by (simp add: long_tag_def)
  with plain have vec: "android_log_write_vec 4 (Some long_tag) ''hello'' = (LOG_ID_MAIN, long_tag_vec)"
    by (simp add: android_log_write_vec_def long_tag_vec_def)
  have "android_log_write android_platform reconnecting_os 4 (Some long_tag) ''hello'' active_state =
          send_frame android_platform reconnecting_os long_tag_newVec 5 3
            (sys Gettid (sys Clock_gettime active_state))"
    by (simp add: android_log_write_def vec call_write_to_log_def write_to_log_kernel_def
        build_long_tag reconnecting_os_def active_state_def Let_def)
  also have "\<dots> = (4076,
      \<lparr>write_to_log = Ptr_write_to_log_kernel, logd_fd = 4, last_uid = 1000,
       calls = [Clock_gettime, Gettid, Writev 3 (take 5 long_tag_newVec), Pthread_mutex_lock,
                Close 3, Socket, Fcntl 4, Connect 4, Pthread_mutex_unlock,
                Writev 4 long_tag_newVec]\<rparr>)"
    by (simp add: send_frame_def write_to_log_initialize_def reconnecting_os_def active_state_def
        long_tag_newVec_def sys_def Let_def header_length_def strip_header_def header_size_def
        sizeof_tid_def)
  finally show ?thesis
    by (simp add: long_tag_newVec_def)
qed

section \<open>The self-filter and the cached user id\<close>

lemma send_frame_keeps_uid:
  assumes sent: "send_frame P os newVec i nr s = (ret, s')"
  shows "last_uid s' = last_uid s \<and> (\<exists>cs. calls s' = calls s @ cs \<and> Getuid \<notin> set cs)"
proof -
  obtain r e where first: "os_writev os (calls s) (logd_fd s) (take i newVec) = (r, e)"
    by (cases "os_writev os (calls s) (logd_fd s) (take i newVec)")
  let ?s1 = "sys Pthread_mutex_lock (sys (Writev (logd_fd s) (take i newVec)) s)"
  obtain ret_init s_init where init: "write_to_log_initialize os ?s1 = (ret_init, s_init)"
    by (cases "write_to_log_initialize os ?s1")
  obtain r2 e2 where second:
    "os_writev os (calls (sys Pthread_mutex_unlock s_init)) (logd_fd s_init)
       (take (nr + header_length) newVec) = (r2, e2)"
    by (cases "os_writev os (calls (sys Pthread_mutex_unlock s_init)) (logd_fd s_init)
       (take (nr + header_length) newVec)")
  from initialize_calls [OF init] obtain cs where cs:
    "calls s_init = calls ?s1 @ cs" "Getuid \<notin> set cs"
    by blast
  note uid = initialize_last_uid [OF init]
  consider (ok) "0 \<le> r" | (other) "r < 0" "e \<noteq> ENOTCONN P"
    | (failed) "r < 0" "e = ENOTCONN P" "ret_init < 0"
    | (retry) "r < 0" "e = ENOTCONN P" "0 \<le> ret_init"
    by linarith
  then show ?thesis
  proof cases
    case ok
    from send_frame_ok [OF first ok, of P nr] sent show ?thesis by auto
  next
    case other
    from send_frame_other_error [OF first other, of nr] sent show ?thesis by auto
  next
    case failed
    from send_frame_init_failed [OF first failed(1,2) init failed(3), of nr] sent cs uid
    show ?thesis by auto
  next
    case retry
    from send_frame_retry [OF first retry(1,2) init retry(3) second] sent cs uid
    show ?thesis by auto
  qed
qed

lemma kernel_appends:
  assumes "write_to_log_kernel P os log_id vec s = (ret, s')"
  shows "\<exists>cs. calls s' = calls s @ cs"
  using assms
  by (auto simp add: write_to_log_kernel_def Let_def
      split: if_splits prod.splits dest!: send_frame_keeps_uid)

text \<open>
  C4. A write on the active path while the cached user id is \<open>AID_LOGD\<close> returns 0 and
  leaves the state as it is: no call is made at all, so nothing is sent. This holds for
  every value of \<open>logd_fd\<close>, also a negative one, where a later test would return
  \<open>-EBADF\<close>: the filter comes first. The same holds when the cached id is still
  \<open>AID_ROOT\<close> and \<open>getuid\<close> answers \<open>AID_LOGD\<close>; then \<open>getuid\<close> is the only call.
\<close>

theorem kernel_self_filter:
  "(last_uid s = AID_LOGD P \<and> AID_LOGD P \<noteq> AID_ROOT P \<longrightarrow>
      write_to_log_kernel P os log_id vec s = (0, s)) \<and>
   (last_uid s = AID_ROOT P \<and> os_getuid os (calls s) = AID_LOGD P \<longrightarrow>
      write_to_log_kernel P os log_id vec s = (0, (sys Getuid s)\<lparr>last_uid := AID_LOGD P\<rparr>))"
  by (simp add: write_to_log_kernel_def Let_def)

theorem kernel_self_filter_witness:
  "last_uid logd_state = AID_LOGD android_platform \<and>
   AID_LOGD android_platform \<noteq> AID_ROOT android_platform \<and>
   logd_fd logd_state < 0 \<and>
   write_to_log_kernel android_platform reconnecting_os LOG_ID_MAIN long_tag_vec logd_state =
     (0, logd_state)"
  using kernel_self_filter [of logd_state android_platform reconnecting_os LOG_ID_MAIN long_tag_vec]
  by (simp add: logd_state_def)

text \<open>
  C9, amended. The cached user id starts as \<open>AID_ROOT\<close>, the id of root, which stands for
  "not yet read". A write on the active path reads the user id with \<open>getuid\<close>, once, and
  caches the answer if and only if the cached id is \<open>AID_ROOT\<close>; a cached id other than
  \<open>AID_ROOT\<close> is never read again and never changes.
\<close>

theorem kernel_caches_uid:
  assumes run: "write_to_log_kernel P os log_id vec s = (ret, s')"
  shows "last_uid (initial_state P) = AID_ROOT P \<and>
         (last_uid s \<noteq> AID_ROOT P \<longrightarrow>
            last_uid s' = last_uid s \<and> Getuid \<notin> set (calls_since s s')) \<and>
         (last_uid s = AID_ROOT P \<longrightarrow>
            last_uid s' = os_getuid os (calls s) \<and>
            filter (\<lambda>c. c = Getuid) (calls_since s s') = [Getuid])"
proof (intro conjI; (rule impI)?; (intro conjI)?)
  show "last_uid (initial_state P) = AID_ROOT P" by (simp add: initial_state_def)
next
  assume cached: "last_uid s \<noteq> AID_ROOT P"
  show "last_uid s' = last_uid s" and "Getuid \<notin> set (calls_since s s')"
  proof -
    have "last_uid s' = last_uid s \<and> (\<exists>cs. calls s' = calls s @ cs \<and> Getuid \<notin> set cs)"
      using run cached
      by (auto simp add: write_to_log_kernel_def Let_def
          split: if_splits prod.splits dest!: send_frame_keeps_uid)
    then show "last_uid s' = last_uid s" and "Getuid \<notin> set (calls_since s s')"
      by auto
  qed
next
  assume root: "last_uid s = AID_ROOT P"
  show "last_uid s' = os_getuid os (calls s)"
    and "filter (\<lambda>c. c = Getuid) (calls_since s s') = [Getuid]"
  proof -
    have "last_uid s' = os_getuid os (calls s) \<and>
          (\<exists>cs. calls s' = calls s @ Getuid # cs \<and> Getuid \<notin> set cs)"
      using run root
      by (auto simp add: write_to_log_kernel_def Let_def
          split: if_splits prod.splits dest!: send_frame_keeps_uid)
    then show "last_uid s' = os_getuid os (calls s)"
      and "filter (\<lambda>c. c = Getuid) (calls_since s s') = [Getuid]"
      by (auto simp add: filter_empty_conv)
  qed
qed

theorem kernel_caches_uid_witness:
  "last_uid active_state \<noteq> AID_ROOT android_platform \<and>
   last_uid (snd (write_to_log_kernel android_platform root_os LOG_ID_MAIN long_tag_vec
                    active_state)) = 1000 \<and>
   Getuid \<notin> set (calls_since active_state
     (snd (write_to_log_kernel android_platform root_os LOG_ID_MAIN long_tag_vec active_state))) \<and>
   last_uid (initial_state android_platform) = AID_ROOT android_platform \<and>
   last_uid (snd (write_to_log_kernel android_platform reconnecting_os LOG_ID_MAIN long_tag_vec
                    (initial_state android_platform))) = 1000 \<and>
   filter (\<lambda>c. c = Getuid) (calls_since (initial_state android_platform)
     (snd (write_to_log_kernel android_platform reconnecting_os LOG_ID_MAIN long_tag_vec
             (initial_state android_platform)))) = [Getuid]"
proof -
  have cached: "last_uid active_state = 1000" by (simp add: active_state_def)
  have fresh: "last_uid (initial_state android_platform) = 0" by (simp add: initial_state_def)
  have answer: "os_getuid reconnecting_os (calls (initial_state android_platform)) = 1000"
    by (simp add: reconnecting_os_def)
  have run: "write_to_log_kernel android_platform root_os LOG_ID_MAIN long_tag_vec active_state =
      (fst (write_to_log_kernel android_platform root_os LOG_ID_MAIN long_tag_vec active_state),
       snd (write_to_log_kernel android_platform root_os LOG_ID_MAIN long_tag_vec active_state))"
    by simp
  have run': "write_to_log_kernel android_platform reconnecting_os LOG_ID_MAIN long_tag_vec
        (initial_state android_platform) =
      (fst (write_to_log_kernel android_platform reconnecting_os LOG_ID_MAIN long_tag_vec
              (initial_state android_platform)),
       snd (write_to_log_kernel android_platform reconnecting_os LOG_ID_MAIN long_tag_vec
              (initial_state android_platform)))"
    by simp
  from kernel_caches_uid [OF run] kernel_caches_uid [OF run'] cached fresh answer
  show ?thesis by simp
qed

text \<open>
  In a process of user 0 the id that \<open>getuid\<close> answers is the initial value itself: after
  the first write the cached id is still \<open>AID_ROOT\<close>, and the second write calls \<open>getuid\<close>
  again.
\<close>

theorem kernel_caches_uid_counterexample:
  "os_getuid root_os [] = AID_ROOT android_platform \<and>
   last_uid (snd (android_log_write android_platform root_os 4 (Some ''tag'') ''hello''
                    (initial_state android_platform))) = AID_ROOT android_platform \<and>
   filter (\<lambda>c. c = Getuid)
     (calls (snd (android_log_write android_platform root_os 4 (Some ''tag'') ''hello''
        (snd (android_log_write android_platform root_os 4 (Some ''tag'') ''hello''
                (initial_state android_platform)))))) = [Getuid, Getuid]"
proof -
  let ?vec = "[\<lparr>iov_base = Prio 4, iov_len = Suc 0\<rparr>, \<lparr>iov_base = Cstr ''tag'', iov_len = 4\<rparr>,
               \<lparr>iov_base = Cstr ''hello'', iov_len = 6\<rparr>]"
  let ?newVec = "[Some \<lparr>iov_base = Log_id_buf LOG_ID_MAIN, iov_len = 1\<rparr>,
                  Some \<lparr>iov_base = Tid 77, iov_len = 2\<rparr>,
                  Some \<lparr>iov_base = Realtime_ts 10 20, iov_len = 8\<rparr>,
                  Some \<lparr>iov_base = Prio 4, iov_len = 1\<rparr>,
                  Some \<lparr>iov_base = Cstr ''tag'', iov_len = 4\<rparr>,
                  Some \<lparr>iov_base = Cstr ''hello'', iov_len = 6\<rparr>]"
  let ?s1 = "\<lparr>write_to_log = Ptr_write_to_log_kernel, logd_fd = 3, last_uid = 0,
              calls = [Pthread_mutex_lock, Socket, Fcntl 3, Connect 3, Pthread_mutex_unlock,
                       Getuid, Clock_gettime, Gettid, Writev 3 ?newVec]\<rparr>"
  have vec: "android_log_write_vec 4 (Some ''tag'') ''hello'' = (LOG_ID_MAIN, ?vec)"
    by (simp add: android_log_write_vec_def radio_tag_def)
  have frame: "build_frame android_platform LOG_ID_MAIN 77 (10, 20) ?vec = (?newVec, 6)"
    by (simp add: build_frame_def header_length_def sizeof_tid_def size_add_def size_sub_def
        fill_newVec.simps Let_def replicate_6)
  have first: "android_log_write android_platform root_os 4 (Some ''tag'') ''hello''
                 (initial_state android_platform) = (11, ?s1)"
    by (simp add: android_log_write_def vec call_write_to_log_def write_to_log_init_def
        write_to_log_initialize_def write_to_log_kernel_def frame send_frame_def
        strip_header_def header_size_def sizeof_tid_def root_os_def initial_state_def sys_def
        Let_def)
  have second: "calls (snd (android_log_write android_platform root_os 4 (Some ''tag'') ''hello'' ?s1)) =
      calls ?s1 @ [Getuid, Clock_gettime, Gettid, Writev 3 ?newVec]"
    by (simp add: android_log_write_def vec call_write_to_log_def write_to_log_kernel_def frame
        send_frame_def strip_header_def header_size_def sizeof_tid_def root_os_def sys_def
        Let_def)
  show ?thesis
    unfolding first snd_conv second by (simp add: root_os_def)
qed

section \<open>The reset\<close>

text \<open>
  C7. After \<open>__android_log_close\<close> the pointer is \<open>__write_to_log_init\<close> and \<open>logd_fd\<close> is
  \<open>-1\<close>, whatever they were. In a state that is already reset the three variables keep
  their values, and the only \<open>close\<close> is that of the descriptor \<open>-1\<close>, no live one; so a
  second reset right after a first changes no variable and closes nothing live.
\<close>

theorem android_log_close_resets:
  "write_to_log (android_log_close s) = Ptr_write_to_log_init \<and>
   logd_fd (android_log_close s) = - 1 \<and>
   last_uid (android_log_close s) = last_uid s \<and>
   calls (android_log_close s) =
     calls s @ [Pthread_mutex_lock, Close (logd_fd s), Pthread_mutex_unlock] \<and>
   (write_to_log s = Ptr_write_to_log_init \<and> logd_fd s = - 1 \<longrightarrow>
      android_log_close s =
        s\<lparr>calls := calls s @ [Pthread_mutex_lock, Close (- 1), Pthread_mutex_unlock]\<rparr>) \<and>
   android_log_close (android_log_close s) =
     (android_log_close s)\<lparr>calls := calls (android_log_close s) @
        [Pthread_mutex_lock, Close (- 1), Pthread_mutex_unlock]\<rparr>"
  by (simp add: android_log_close_def sys_def Let_def)

theorem android_log_close_resets_witness:
  "write_to_log (initial_state android_platform) = Ptr_write_to_log_init \<and>
   logd_fd (initial_state android_platform) = - 1 \<and>
   android_log_close (initial_state android_platform) =
     (initial_state android_platform)
       \<lparr>calls := [Pthread_mutex_lock, Close (- 1), Pthread_mutex_unlock]\<rparr> \<and>
   logd_fd (android_log_close active_state) = - 1 \<and>
   calls (android_log_close active_state) = [Pthread_mutex_lock, Close 3, Pthread_mutex_unlock]"
  using android_log_close_resets [of "initial_state android_platform"]
    android_log_close_resets [of active_state]
  by (simp add: initial_state_def active_state_def)

section \<open>The first write and a refused connection\<close>

lemma init_attempts_socket:
  assumes ptr: "write_to_log s = Ptr_write_to_log_init" and nofd: "logd_fd s < 0"
  shows "take 2 (calls_since s (snd (call_write_to_log P os log_id vec s))) =
           [Pthread_mutex_lock, Socket]"
proof -
  let ?s1 = "sys Pthread_mutex_lock s"
  obtain ret s2 where init: "write_to_log_initialize os ?s1 = (ret, s2)"
    by (cases "write_to_log_initialize os ?s1")
  from init nofd have "\<exists>cs. calls s2 = calls s @ Pthread_mutex_lock # Socket # cs"
    by (auto simp add: write_to_log_initialize_def Let_def split: prod.splits if_splits)
  then obtain cs where cs: "calls s2 = calls s @ Pthread_mutex_lock # Socket # cs" by blast
  let ?s3 = "sys Pthread_mutex_unlock (s2\<lparr>write_to_log := Ptr_write_to_log_kernel\<rparr>)"
  obtain ret' s4 where kern: "write_to_log_kernel P os log_id vec ?s3 = (ret', s4)"
    by (cases "write_to_log_kernel P os log_id vec ?s3")
  from kernel_appends [OF kern] obtain cs' where cs': "calls s4 = calls ?s3 @ cs'" by blast
  have "\<exists>cs''. calls (snd (call_write_to_log P os log_id vec s)) =
          calls s @ Pthread_mutex_lock # Socket # cs''"
    using ptr init kern cs cs'
    by (auto simp add: call_write_to_log_def write_to_log_init_def Let_def sys_def)
  then show ?thesis by auto
qed

text \<open>
  C2, amended. When the set-up of the first write creates the socket and makes it
  non-blocking but \<open>connect\<close> fails, the write returns the negated error number, the socket
  is closed and no descriptor is kept, and the pointer stays \<open>__write_to_log_init\<close>: it is
  not \<open>__write_to_log_null\<close>. So the next write, on any system, takes the lock and creates
  a socket again.
\<close>

theorem connect_refused_stays_uninitialized:
  assumes ptr: "write_to_log s = Ptr_write_to_log_init" and nofd: "logd_fd s < 0"
      and sock: "os_socket os (calls s @ [Pthread_mutex_lock]) = (i, e1)" and sock_ok: "0 \<le> i"
      and fcntl: "os_fcntl os (calls s @ [Pthread_mutex_lock, Socket]) i = (r2, e2)"
      and fcntl_ok: "0 \<le> r2"
      and conn: "os_connect os (calls s @ [Pthread_mutex_lock, Socket, Fcntl i]) i = (r3, e3)"
      and refused: "r3 < 0" and errno: "0 < e3"
      and run: "call_write_to_log P os log_id vec s = (ret, s')"
  shows "ret = - int e3 \<and> write_to_log s' = Ptr_write_to_log_init \<and> logd_fd s' = - 1 \<and>
         calls_since s s' =
           [Pthread_mutex_lock, Socket, Fcntl i, Connect i, Close i, Pthread_mutex_unlock] \<and>
         (\<forall>P' os' log_id' vec'.
            take 2 (calls_since s' (snd (call_write_to_log P' os' log_id' vec' s'))) =
              [Pthread_mutex_lock, Socket])"
proof -
  have first: "ret = - int e3 \<and> write_to_log s' = Ptr_write_to_log_init \<and> logd_fd s' = - 1 \<and>
         calls s' = calls s @
           [Pthread_mutex_lock, Socket, Fcntl i, Connect i, Close i, Pthread_mutex_unlock]"
    using assms
    by (auto simp add: call_write_to_log_def write_to_log_init_def write_to_log_initialize_def
        Let_def sys_def)
  then have "write_to_log s' = Ptr_write_to_log_init" "logd_fd s' < 0" by simp_all
  then have "\<forall>P' os' log_id' vec'.
            take 2 (calls_since s' (snd (call_write_to_log P' os' log_id' vec' s'))) =
              [Pthread_mutex_lock, Socket]"
    by (blast intro: init_attempts_socket)
  with first show ?thesis by simp
qed

theorem connect_refused_stays_uninitialized_witness:
  "write_to_log (initial_state android_platform) = Ptr_write_to_log_init \<and>
   logd_fd (initial_state android_platform) < 0 \<and>
   os_connect refusing_os
     (calls (initial_state android_platform) @ [Pthread_mutex_lock, Socket, Fcntl 3]) 3 = (- 1, 111) \<and>
   fst (call_write_to_log android_platform refusing_os LOG_ID_MAIN long_tag_vec
          (initial_state android_platform)) = - 111 \<and>
   write_to_log (snd (call_write_to_log android_platform refusing_os LOG_ID_MAIN long_tag_vec
          (initial_state android_platform))) = Ptr_write_to_log_init \<and>
   calls_since (initial_state android_platform)
     (snd (call_write_to_log android_platform refusing_os LOG_ID_MAIN long_tag_vec
          (initial_state android_platform))) =
     [Pthread_mutex_lock, Socket, Fcntl 3, Connect 3, Close 3, Pthread_mutex_unlock]"
proof -
  let ?s = "initial_state android_platform"
  have ptr: "write_to_log ?s = Ptr_write_to_log_init" and nofd: "logd_fd ?s < 0"
    by (simp_all add: initial_state_def)
  have sock: "os_socket refusing_os (calls ?s @ [Pthread_mutex_lock]) = (3, 0)"
    and fcntl: "os_fcntl refusing_os (calls ?s @ [Pthread_mutex_lock, Socket]) 3 = (0, 0)"
    and conn: "os_connect refusing_os (calls ?s @ [Pthread_mutex_lock, Socket, Fcntl 3]) 3 = (- 1, 111)"
    by (simp_all add: refusing_os_def)
  have run: "call_write_to_log android_platform refusing_os LOG_ID_MAIN long_tag_vec ?s =
      (fst (call_write_to_log android_platform refusing_os LOG_ID_MAIN long_tag_vec ?s),
       snd (call_write_to_log android_platform refusing_os LOG_ID_MAIN long_tag_vec ?s))"
    by simp
  from connect_refused_stays_uninitialized [OF ptr nofd sock _ fcntl _ conn _ _ run] ptr nofd conn
  show ?thesis by simp
qed

text \<open>
  On a system where \<open>connect\<close> is refused, the first write from the initial state returns
  \<open>-111\<close> and leaves the pointer at \<open>__write_to_log_init\<close>, and the second write creates a
  socket and connects again.
\<close>

theorem connect_refused_counterexample:
  "fst (android_log_write android_platform refusing_os 4 (Some ''tag'') ''hello''
          (initial_state android_platform)) = - 111 \<and>
   write_to_log (snd (android_log_write android_platform refusing_os 4 (Some ''tag'') ''hello''
          (initial_state android_platform))) = Ptr_write_to_log_init \<and>
   Ptr_write_to_log_init \<noteq> Ptr_write_to_log_null \<and>
   calls_since
     (snd (android_log_write android_platform refusing_os 4 (Some ''tag'') ''hello''
             (initial_state android_platform)))
     (snd (android_log_write android_platform refusing_os 4 (Some ''tag'') ''hello''
        (snd (android_log_write android_platform refusing_os 4 (Some ''tag'') ''hello''
                (initial_state android_platform))))) =
     [Pthread_mutex_lock, Socket, Fcntl 3, Connect 3, Close 3, Pthread_mutex_unlock]"
proof -
  let ?s1 = "\<lparr>write_to_log = Ptr_write_to_log_init, logd_fd = - 1, last_uid = 0,
              calls = [Pthread_mutex_lock, Socket, Fcntl 3, Connect 3, Close 3,
                       Pthread_mutex_unlock]\<rparr>"
  have first: "android_log_write android_platform refusing_os 4 (Some ''tag'') ''hello''
                 (initial_state android_platform) = (- 111, ?s1)"
    by (simp add: android_log_write_def android_log_write_vec_def radio_tag_def
        call_write_to_log_def write_to_log_init_def write_to_log_initialize_def refusing_os_def
        initial_state_def sys_def Let_def)
  have second: "android_log_write android_platform refusing_os 4 (Some ''tag'') ''hello'' ?s1 =
      (- 111, ?s1\<lparr>calls := calls ?s1 @
         [Pthread_mutex_lock, Socket, Fcntl 3, Connect 3, Close 3, Pthread_mutex_unlock]\<rparr>)"
    by (simp add: android_log_write_def android_log_write_vec_def radio_tag_def
        call_write_to_log_def write_to_log_init_def write_to_log_initialize_def refusing_os_def
        sys_def Let_def)
  show ?thesis
    unfolding first snd_conv fst_conv second by (simp add: calls_since_def)
qed

section \<open>Tags of the radio subsystem\<close>

text \<open>
  C8, amended. A textual write whose tag is one of the radio tags (for instance any tag
  that starts with \<open>RIL\<close>) goes to \<open>LOG_ID_RADIO\<close>, and its tag is replaced by the first 31
  characters of \<open>use-Rlog/RLOG-\<close> followed by the tag: the notice and the whole tag when the
  tag has at most 17 characters, the notice and the first 17 characters of the tag
  otherwise.
\<close>

theorem android_log_write_radio:
  assumes radio: "radio_tag tag"
  shows "android_log_write P os prio (Some tag) msg s =
           call_write_to_log P os LOG_ID_RADIO
             [\<lparr>iov_base = Prio prio, iov_len = 1\<rparr>,
              \<lparr>iov_base = Cstr (take 31 (''use-Rlog/RLOG-'' @ tag)),
               iov_len = length (take 31 (''use-Rlog/RLOG-'' @ tag)) + 1\<rparr>,
              \<lparr>iov_base = Cstr msg, iov_len = length msg + 1\<rparr>] s \<and>
         (length tag \<le> 17 \<longrightarrow> take 31 (''use-Rlog/RLOG-'' @ tag) = ''use-Rlog/RLOG-'' @ tag)"
  using radio by (simp add: android_log_write_def android_log_write_vec_def snprintf_def)

theorem android_log_write_radio_witness:
  "radio_tag ''RIL-foo'' \<and>
   android_log_write android_platform reconnecting_os 4 (Some ''RIL-foo'') ''hello'' active_state =
     call_write_to_log android_platform reconnecting_os LOG_ID_RADIO
       [\<lparr>iov_base = Prio 4, iov_len = 1\<rparr>,
        \<lparr>iov_base = Cstr ''use-Rlog/RLOG-RIL-foo'', iov_len = 22\<rparr>,
        \<lparr>iov_base = Cstr ''hello'', iov_len = 6\<rparr>] active_state"
proof -
  have radio: "radio_tag ''RIL-foo''" by (simp add: radio_tag_def)
  from android_log_write_radio [OF radio, of android_platform reconnecting_os 4 "''hello''" active_state]
    radio show ?thesis by (simp add: eval_nat_numeral)
qed

theorem android_log_write_radio_counterexample:
  "radio_tag ''RIL-abcdefghijklmnopqrstuvwxyz'' \<and>
   android_log_write_vec 4 (Some ''RIL-abcdefghijklmnopqrstuvwxyz'') ''hello'' =
     (LOG_ID_RADIO,
      [\<lparr>iov_base = Prio 4, iov_len = 1\<rparr>,
       \<lparr>iov_base = Cstr ''use-Rlog/RLOG-RIL-abcdefghijklm'', iov_len = 32\<rparr>,
       \<lparr>iov_base = Cstr ''hello'', iov_len = 6\<rparr>]) \<and>
   ''use-Rlog/RLOG-RIL-abcdefghijklm'' \<noteq> ''use-Rlog/RLOG-'' @ ''RIL-abcdefghijklmnopqrstuvwxyz''"
  by (simp add: radio_tag_def android_log_write_vec_def snprintf_def eval_nat_numeral)

end
